theory Spec2Isabelle
  imports Main
begin

section \<open>Enumerations (models.py, lines 7-23)\<close>

text \<open>
  The three status enumerations are \<open>str\<close>-valued Python enums. Each becomes a datatype
  with one constructor per member, and a function giving the member's value, which is the
  string that is stored and sent. Member names that occur in several enumerations
  (\<open>PENDING\<close>, \<open>APPROVED\<close>) are written with the enumeration's name in front.
\<close>

datatype ContactRequestStatus = PENDING | APPROVED | DECLINED

fun ContactRequestStatus_value :: "ContactRequestStatus \<Rightarrow> string" where
  "ContactRequestStatus_value ContactRequestStatus.PENDING = ''pending''"
| "ContactRequestStatus_value ContactRequestStatus.APPROVED = ''approved''"
| "ContactRequestStatus_value ContactRequestStatus.DECLINED = ''declined''"

datatype MessageStatus = SENT | READ | DELETED

fun MessageStatus_value :: "MessageStatus \<Rightarrow> string" where
  "MessageStatus_value MessageStatus.SENT = ''sent''"
| "MessageStatus_value MessageStatus.READ = ''read''"
| "MessageStatus_value MessageStatus.DELETED = ''deleted''"

datatype ModerationStatus = PENDING | APPROVED | REJECTED | FLAGGED

fun ModerationStatus_value :: "ModerationStatus \<Rightarrow> string" where
  "ModerationStatus_value ModerationStatus.PENDING = ''pending''"
| "ModerationStatus_value ModerationStatus.APPROVED = ''approved''"
| "ModerationStatus_value ModerationStatus.REJECTED = ''rejected''"
| "ModerationStatus_value ModerationStatus.FLAGGED = ''flagged''"

section \<open>Values and errors\<close>

text \<open>
  A Python \<open>str\<close> is a \<open>string\<close>, one \<open>char\<close> for each character, so that \<open>length\<close>
  is what \<open>max_length\<close> counts. A \<open>datetime\<close> is a point on a time line and a \<open>date\<close> a
  day number; only their equality matters here. The clock behind
  \<open>default_factory=datetime.utcnow\<close> is an argument \<open>now\<close> of every constructor that
  reads it.
\<close>

type_synonym datetime = int
type_synonym date = int

text \<open>
  The two kinds of failure: a \<open>ValidationError\<close> lists the offending fields in the order
  of their declaration; a \<open>ConstraintViolation\<close> names the violated constraint of the
  storage layer (a primary key, a unique column or a foreign key).
\<close>

datatype error = ValidationError "string list" | ConstraintViolation string

text \<open>A keyword argument that may be left out: \<open>None\<close> selects the declared default.\<close>

fun field_default :: "'a \<Rightarrow> 'a option \<Rightarrow> 'a" where
  "field_default d None = d"
| "field_default d (Some v) = v"

text \<open>
  \<open>Field(max_length=n)\<close> on a \<open>str\<close> field, and the outcome of checking one field:
  the field's name when one of its constraints fails.
\<close>

definition max_length :: "nat \<Rightarrow> string \<Rightarrow> bool" where
  "max_length n v = (length v \<le> n)"

definition check :: "string \<Rightarrow> bool \<Rightarrow> string list" where
  "check field ok = (if ok then [] else [field])"

section \<open>Persistent models (models.py, lines 27-160)\<close>

text \<open>
  Every table class is a record with the fields of the class in their order. The
  \<open>Relationship\<close> attributes are not stored: they are lookups by foreign key. Each class
  has a constructor taking the required fields and, as options, the fields with a default.
  As for every \<open>table=True\<close> class, the constructor checks nothing: the \<open>max_length\<close>
  of the fields and the \<open>regex\<close> of \<open>User.email\<close> are declared and not applied to the
  arguments.
\<close>

record User =
  id :: "int option"
  username :: string
  email :: string
  password_hash :: string
  full_name :: string
  is_active :: bool
  is_admin :: bool
  joined_at :: datetime
  last_login :: "datetime option"

definition User_init ::
  "datetime \<Rightarrow> string \<Rightarrow> string \<Rightarrow> string \<Rightarrow> string \<Rightarrow>
   int option \<Rightarrow> bool option \<Rightarrow> bool option \<Rightarrow> datetime option \<Rightarrow> datetime option \<Rightarrow> User" where
  "User_init now un em ph fn i act adm joined login =
     \<lparr>User.id = i, User.username = un, User.email = em, User.password_hash = ph,
      User.full_name = fn, User.is_active = field_default True act,
      User.is_admin = field_default False adm,
      User.joined_at = field_default now joined, User.last_login = login\<rparr>"

record WikipediaImage =
  id :: "int option"
  image_date :: date
  title :: string
  description :: string
  image_url :: string
  thumbnail_url :: "string option"
  source_url :: string
  license_info :: string
  fetched_at :: datetime

definition WikipediaImage_init ::
  "datetime \<Rightarrow> date \<Rightarrow> string \<Rightarrow> string \<Rightarrow> string \<Rightarrow> string \<Rightarrow> string \<Rightarrow>
   int option \<Rightarrow> string option \<Rightarrow> datetime option \<Rightarrow> WikipediaImage" where
  "WikipediaImage_init now d t descr url src lic i thumb fetched =
     \<lparr>WikipediaImage.id = i, WikipediaImage.image_date = d, WikipediaImage.title = t,
      WikipediaImage.description = descr, WikipediaImage.image_url = url,
      WikipediaImage.thumbnail_url = thumb, WikipediaImage.source_url = src,
      WikipediaImage.license_info = lic,
      WikipediaImage.fetched_at = field_default now fetched\<rparr>"

record JournalEntry =
  id :: "int option"
  user_id :: int
  wikipedia_image_id :: int
  entry_date :: date
  title :: string
  content :: string
  is_shared :: bool
  created_at :: datetime
  updated_at :: datetime

definition JournalEntry_init ::
  "datetime \<Rightarrow> int \<Rightarrow> int \<Rightarrow> date \<Rightarrow> string \<Rightarrow> string \<Rightarrow>
   int option \<Rightarrow> bool option \<Rightarrow> datetime option \<Rightarrow> datetime option \<Rightarrow> JournalEntry" where
  "JournalEntry_init now uid wid d t c i shared created updated =
     \<lparr>JournalEntry.id = i, JournalEntry.user_id = uid,
      JournalEntry.wikipedia_image_id = wid, JournalEntry.entry_date = d,
      JournalEntry.title = t, JournalEntry.content = c,
      JournalEntry.is_shared = field_default False shared,
      JournalEntry.created_at = field_default now created,
      JournalEntry.updated_at = field_default now updated\<rparr>"

record SharedEntry =
  id :: "int option"
  journal_entry_id :: int
  moderation_status :: ModerationStatus
  moderated_by :: "int option"
  moderated_at :: "datetime option"
  moderation_notes :: "string option"
  shared_at :: datetime
  view_count :: int
  like_count :: int

definition SharedEntry_init ::
  "datetime \<Rightarrow> int \<Rightarrow> int option \<Rightarrow> ModerationStatus option \<Rightarrow> int option \<Rightarrow>
   datetime option \<Rightarrow> string option \<Rightarrow> datetime option \<Rightarrow> int option \<Rightarrow> int option \<Rightarrow>
   SharedEntry" where
  "SharedEntry_init now jid i st moderator moderated notes shared views likes =
     \<lparr>SharedEntry.id = i, SharedEntry.journal_entry_id = jid,
      SharedEntry.moderation_status = field_default ModerationStatus.PENDING st,
      SharedEntry.moderated_by = moderator, SharedEntry.moderated_at = moderated,
      SharedEntry.moderation_notes = notes,
      SharedEntry.shared_at = field_default now shared,
      SharedEntry.view_count = field_default 0 views,
      SharedEntry.like_count = field_default 0 likes\<rparr>"

record EntryLike =
  id :: "int option"
  user_id :: int
  shared_entry_id :: int
  liked_at :: datetime

definition EntryLike_init ::
  "datetime \<Rightarrow> int \<Rightarrow> int \<Rightarrow> int option \<Rightarrow> datetime option \<Rightarrow> EntryLike" where
  "EntryLike_init now uid sid i liked =
     \<lparr>EntryLike.id = i, EntryLike.user_id = uid, EntryLike.shared_entry_id = sid,
      EntryLike.liked_at = field_default now liked\<rparr>"

record ContactRequest =
  id :: "int option"
  requester_id :: int
  requested_id :: int
  shared_entry_id :: int
  status :: ContactRequestStatus
  message :: "string option"
  requested_at :: datetime
  responded_at :: "datetime option"
  response_message :: "string option"

definition ContactRequest_init ::
  "datetime \<Rightarrow> int \<Rightarrow> int \<Rightarrow> int \<Rightarrow> int option \<Rightarrow> ContactRequestStatus option \<Rightarrow>
   string option \<Rightarrow> datetime option \<Rightarrow> datetime option \<Rightarrow> string option \<Rightarrow>
   ContactRequest" where
  "ContactRequest_init now rq rd sid i st msg requested responded resp =
     \<lparr>ContactRequest.id = i, ContactRequest.requester_id = rq,
      ContactRequest.requested_id = rd, ContactRequest.shared_entry_id = sid,
      ContactRequest.status = field_default ContactRequestStatus.PENDING st,
      ContactRequest.message = msg,
      ContactRequest.requested_at = field_default now requested,
      ContactRequest.responded_at = responded,
      ContactRequest.response_message = resp\<rparr>"

record Message =
  id :: "int option"
  sender_id :: int
  recipient_id :: int
  contact_request_id :: int
  subject :: string
  content :: string
  status :: MessageStatus
  sent_at :: datetime
  read_at :: "datetime option"
  deleted_by_sender :: bool
  deleted_by_recipient :: bool

definition Message_init ::
  "datetime \<Rightarrow> int \<Rightarrow> int \<Rightarrow> int \<Rightarrow> string \<Rightarrow> string \<Rightarrow> int option \<Rightarrow>
   MessageStatus option \<Rightarrow> datetime option \<Rightarrow> datetime option \<Rightarrow> bool option \<Rightarrow>
   bool option \<Rightarrow> Message" where
  "Message_init now sender recipient cid subj c i st sent rd del_s del_r =
     \<lparr>Message.id = i, Message.sender_id = sender, Message.recipient_id = recipient,
      Message.contact_request_id = cid, Message.subject = subj, Message.content = c,
      Message.status = field_default MessageStatus.SENT st,
      Message.sent_at = field_default now sent, Message.read_at = rd,
      Message.deleted_by_sender = field_default False del_s,
      Message.deleted_by_recipient = field_default False del_r\<rparr>"

section \<open>Validation schemas (models.py, lines 182-203)\<close>

text \<open>
  A \<open>table=False\<close> class validates its fields when it is constructed: the constructor
  returns the record, or the \<open>ValidationError\<close> listing the fields whose value is longer
  than their \<open>max_length\<close>.
\<close>

record UserCreate =
  username :: string
  email :: string
  password :: string
  full_name :: string

definition UserCreate_init ::
  "string \<Rightarrow> string \<Rightarrow> string \<Rightarrow> string \<Rightarrow> error + UserCreate" where
  "UserCreate_init un em pw fn =
     (let errs = check ''username'' (max_length 50 un) @ check ''email'' (max_length 255 em) @
                 check ''password'' (max_length 100 pw) @
                 check ''full_name'' (max_length 100 fn)
      in if errs = [] then
           Inr \<lparr>UserCreate.username = un, UserCreate.email = em,
                UserCreate.password = pw, UserCreate.full_name = fn\<rparr>
         else Inl (ValidationError errs))"

record JournalEntryCreate =
  title :: string
  content :: string
  is_shared :: bool

definition JournalEntryCreate_init ::
  "string \<Rightarrow> string \<Rightarrow> bool option \<Rightarrow> error + JournalEntryCreate" where
  "JournalEntryCreate_init t c shared =
     (let errs = check ''title'' (max_length 200 t) @ check ''content'' (max_length 5000 c)
      in if errs = [] then
           Inr \<lparr>JournalEntryCreate.title = t, JournalEntryCreate.content = c,
                JournalEntryCreate.is_shared = field_default False shared\<rparr>
         else Inl (ValidationError errs))"

section \<open>The email pattern (models.py, line 34)\<close>

text \<open>
  The \<open>regex\<close> of \<open>User.email\<close> is written with the constructs it uses: a character
  class is a list of inclusive ranges and \<open>+\<close> is \<open>one_or_more\<close>. \<open>fullmatch\<close> decides
  whether a pattern matches a whole string, by taking the derivative of the pattern by
  each character in turn. The anchors are those of Python: \<open>^\<close> matches at the start of
  the string, and \<open>$\<close> at its end and also just before a newline that ends it. So the
  pattern \<open>^r$\<close> matches a string when \<open>r\<close> matches the whole of it, or the whole of it
  without its final newline; this is \<open>match_anchored\<close>.
\<close>

datatype regex =
    Never
  | Empty
  | Chars "(char \<times> char) list"
  | Cat regex regex
  | Alt regex regex
  | Star regex

definition in_ranges :: "char \<Rightarrow> (char \<times> char) list \<Rightarrow> bool" where
  "in_ranges c rs =
     list_ex (\<lambda>(lo, hi). (of_char lo :: nat) \<le> of_char c \<and> (of_char c :: nat) \<le> of_char hi) rs"

fun nullable :: "regex \<Rightarrow> bool" where
  "nullable Never = False"
| "nullable Empty = True"
| "nullable (Chars rs) = False"
| "nullable (Cat r s) = (nullable r \<and> nullable s)"
| "nullable (Alt r s) = (nullable r \<or> nullable s)"
| "nullable (Star r) = True"

fun deriv :: "char \<Rightarrow> regex \<Rightarrow> regex" where
  "deriv c Never = Never"
| "deriv c Empty = Never"
| "deriv c (Chars rs) = (if in_ranges c rs then Empty else Never)"
| "deriv c (Cat r s) =
     (if nullable r then Alt (Cat (deriv c r) s) (deriv c s) else Cat (deriv c r) s)"
| "deriv c (Alt r s) = Alt (deriv c r) (deriv c s)"
| "deriv c (Star r) = Cat (deriv c r) (Star r)"

definition fullmatch :: "regex \<Rightarrow> string \<Rightarrow> bool" where
  "fullmatch r s = nullable (fold deriv s r)"

definition match_anchored :: "regex \<Rightarrow> string \<Rightarrow> bool" where
  "match_anchored r s =
     (fullmatch r s \<or> (s \<noteq> [] \<and> last s = CHR 0x0A \<and> fullmatch r (butlast s)))"

definition one_or_more :: "regex \<Rightarrow> regex" where
  "one_or_more r = Cat r (Star r)"

definition lit :: "char \<Rightarrow> regex" where
  "lit c = Chars [(c, c)]"

text \<open>\<open>a-zA-Z0-9\<close>, the ranges that all three classes of the pattern start with.\<close>

definition alnum :: "(char \<times> char) list" where
  "alnum = [(CHR ''a'', CHR ''z''), (CHR ''A'', CHR ''Z''), (CHR ''0'', CHR ''9'')]"

text \<open>
  The pattern \<^verbatim>\<open>^[a-zA-Z0-9_.+-]+@[a-zA-Z0-9-]+\.[a-zA-Z0-9-.]+$\<close> between its
  anchors, and the pattern with them.
\<close>

definition email_regex :: regex where
  "email_regex =
     Cat (one_or_more (Chars (alnum @ [(CHR ''_'', CHR ''_''), (CHR ''.'', CHR ''.''),
                                        (CHR ''+'', CHR ''+''), (CHR ''-'', CHR ''-'')])))
    (Cat (lit CHR ''@'')
    (Cat (one_or_more (Chars (alnum @ [(CHR ''-'', CHR ''-'')])))
    (Cat (lit CHR ''.'')
         (one_or_more (Chars (alnum @ [(CHR ''-'', CHR ''-''), (CHR ''.'', CHR ''.'')]))))))"

definition email_pattern :: "string \<Rightarrow> bool" where
  "email_pattern s = match_anchored email_regex s"

section \<open>The storage layer\<close>

text \<open>
  The store holds the rows of each table in the order of their insertion. The
  \<open>admin_logs\<close> table is left out: no other table refers to it. Persisting a record is
  the storage engine's insert. It enforces what the \<open>Field\<close> declarations of the table
  hand to the engine: \<open>primary_key=True\<close>, \<open>unique=True\<close> and \<open>foreign_key=...\<close>, checked in
  this order and, within a kind, in the order of the fields; the first constraint
  violated is the one reported, as a \<open>ConstraintViolation\<close>. An \<open>id\<close> left \<open>None\<close> is
  assigned by the engine, one more than the largest \<open>id\<close> of the table. The
  \<open>max_length\<close> and \<open>regex\<close> of a column are not constraints of the engine: an insert
  does not check them.
\<close>

record Store =
  users :: "User list"
  wikipedia_images :: "WikipediaImage list"
  journal_entries :: "JournalEntry list"
  shared_entries :: "SharedEntry list"
  entry_likes :: "EntryLike list"
  contact_requests :: "ContactRequest list"
  messages :: "Message list"

definition empty_store :: Store where
  "empty_store =
     \<lparr>users = [], wikipedia_images = [], journal_entries = [], shared_entries = [],
      entry_likes = [], contact_requests = [], messages = []\<rparr>"

definition next_id :: "int option list \<Rightarrow> int" where
  "next_id ids = fold (\<lambda>i m. case i of None \<Rightarrow> m | Some k \<Rightarrow> max k m) ids 0 + 1"

definition assign_id :: "int option list \<Rightarrow> int option \<Rightarrow> int" where
  "assign_id ids i = (case i of None \<Rightarrow> next_id ids | Some k \<Rightarrow> k)"

definition primary_key :: "string \<Rightarrow> int option list \<Rightarrow> int option \<Rightarrow> string list" where
  "primary_key name ids i = (if i \<noteq> None \<and> i \<in> set ids then [name] else [])"

definition unique :: "string \<Rightarrow> 'a list \<Rightarrow> 'a \<Rightarrow> string list" where
  "unique name column v = (if v \<in> set column then [name] else [])"

definition foreign_key :: "string \<Rightarrow> int option list \<Rightarrow> int \<Rightarrow> string list" where
  "foreign_key name ids k = (if Some k \<in> set ids then [] else [name])"

fun foreign_key_opt :: "string \<Rightarrow> int option list \<Rightarrow> int option \<Rightarrow> string list" where
  "foreign_key_opt name ids None = []"
| "foreign_key_opt name ids (Some k) = foreign_key name ids k"

text \<open>The outcome of an insert: the stored row with the new store, or the first violation.\<close>

fun commit :: "string list \<Rightarrow> 'a \<Rightarrow> error + 'a" where
  "commit [] result = Inr result"
| "commit (c # cs) result = Inl (ConstraintViolation c)"

definition User_violations :: "Store \<Rightarrow> User \<Rightarrow> string list" where
  "User_violations s u =
     primary_key ''users.id'' (map User.id (users s)) (User.id u) @
     unique ''users.username'' (map User.username (users s)) (User.username u) @
     unique ''users.email'' (map User.email (users s)) (User.email u)"

definition persist_User :: "Store \<Rightarrow> User \<Rightarrow> error + User \<times> Store" where
  "persist_User s u =
     (let row = u\<lparr>User.id := Some (assign_id (map User.id (users s)) (User.id u))\<rparr>
      in commit (User_violations s u) (row, s\<lparr>users := users s @ [row]\<rparr>))"

definition WikipediaImage_violations :: "Store \<Rightarrow> WikipediaImage \<Rightarrow> string list" where
  "WikipediaImage_violations s w =
     primary_key ''wikipedia_images.id'' (map WikipediaImage.id (wikipedia_images s))
       (WikipediaImage.id w) @
     unique ''wikipedia_images.image_date''
       (map WikipediaImage.image_date (wikipedia_images s)) (WikipediaImage.image_date w)"

definition persist_WikipediaImage ::
  "Store \<Rightarrow> WikipediaImage \<Rightarrow> error + WikipediaImage \<times> Store" where
  "persist_WikipediaImage s w =
     (let row = w\<lparr>WikipediaImage.id :=
                   Some (assign_id (map WikipediaImage.id (wikipedia_images s))
                           (WikipediaImage.id w))\<rparr>
      in commit (WikipediaImage_violations s w)
           (row, s\<lparr>wikipedia_images := wikipedia_images s @ [row]\<rparr>))"

definition JournalEntry_violations :: "Store \<Rightarrow> JournalEntry \<Rightarrow> string list" where
  "JournalEntry_violations s e =
     primary_key ''journal_entries.id'' (map JournalEntry.id (journal_entries s))
       (JournalEntry.id e) @
     foreign_key ''journal_entries.user_id'' (map User.id (users s))
       (JournalEntry.user_id e) @
     foreign_key ''journal_entries.wikipedia_image_id''
       (map WikipediaImage.id (wikipedia_images s)) (JournalEntry.wikipedia_image_id e)"

definition persist_JournalEntry ::
  "Store \<Rightarrow> JournalEntry \<Rightarrow> error + JournalEntry \<times> Store" where
  "persist_JournalEntry s e =
     (let row = e\<lparr>JournalEntry.id :=
                   Some (assign_id (map JournalEntry.id (journal_entries s))
                           (JournalEntry.id e))\<rparr>
      in commit (JournalEntry_violations s e)
           (row, s\<lparr>journal_entries := journal_entries s @ [row]\<rparr>))"

definition SharedEntry_violations :: "Store \<Rightarrow> SharedEntry \<Rightarrow> string list" where
  "SharedEntry_violations s e =
     primary_key ''shared_entries.id'' (map SharedEntry.id (shared_entries s))
       (SharedEntry.id e) @
     unique ''shared_entries.journal_entry_id''
       (map SharedEntry.journal_entry_id (shared_entries s))
       (SharedEntry.journal_entry_id e) @
     foreign_key ''shared_entries.journal_entry_id''
       (map JournalEntry.id (journal_entries s)) (SharedEntry.journal_entry_id e) @
     foreign_key_opt ''shared_entries.moderated_by'' (map User.id (users s))
       (SharedEntry.moderated_by e)"

definition persist_SharedEntry ::
  "Store \<Rightarrow> SharedEntry \<Rightarrow> error + SharedEntry \<times> Store" where
  "persist_SharedEntry s e =
     (let row = e\<lparr>SharedEntry.id :=
                   Some (assign_id (map SharedEntry.id (shared_entries s))
                           (SharedEntry.id e))\<rparr>
      in commit (SharedEntry_violations s e)
           (row, s\<lparr>shared_entries := shared_entries s @ [row]\<rparr>))"

definition EntryLike_violations :: "Store \<Rightarrow> EntryLike \<Rightarrow> string list" where
  "EntryLike_violations s l =
     primary_key ''entry_likes.id'' (map EntryLike.id (entry_likes s)) (EntryLike.id l) @
     foreign_key ''entry_likes.user_id'' (map User.id (users s)) (EntryLike.user_id l) @
     foreign_key ''entry_likes.shared_entry_id'' (map SharedEntry.id (shared_entries s))
       (EntryLike.shared_entry_id l)"

definition persist_EntryLike :: "Store \<Rightarrow> EntryLike \<Rightarrow> error + EntryLike \<times> Store" where
  "persist_EntryLike s l =
     (let row = l\<lparr>EntryLike.id :=
                   Some (assign_id (map EntryLike.id (entry_likes s)) (EntryLike.id l))\<rparr>
      in commit (EntryLike_violations s l)
           (row, s\<lparr>entry_likes := entry_likes s @ [row]\<rparr>))"

definition ContactRequest_violations :: "Store \<Rightarrow> ContactRequest \<Rightarrow> string list" where
  "ContactRequest_violations s r =
     primary_key ''contact_requests.id'' (map ContactRequest.id (contact_requests s))
       (ContactRequest.id r) @
     foreign_key ''contact_requests.requester_id'' (map User.id (users s))
       (ContactRequest.requester_id r) @
     foreign_key ''contact_requests.requested_id'' (map User.id (users s))
       (ContactRequest.requested_id r) @
     foreign_key ''contact_requests.shared_entry_id''
       (map SharedEntry.id (shared_entries s)) (ContactRequest.shared_entry_id r)"

definition persist_ContactRequest ::
  "Store \<Rightarrow> ContactRequest \<Rightarrow> error + ContactRequest \<times> Store" where
  "persist_ContactRequest s r =
     (let row = r\<lparr>ContactRequest.id :=
                   Some (assign_id (map ContactRequest.id (contact_requests s))
                           (ContactRequest.id r))\<rparr>
      in commit (ContactRequest_violations s r)
           (row, s\<lparr>contact_requests := contact_requests s @ [row]\<rparr>))"

definition Message_violations :: "Store \<Rightarrow> Message \<Rightarrow> string list" where
  "Message_violations s m =
     primary_key ''messages.id'' (map Message.id (messages s)) (Message.id m) @
     foreign_key ''messages.sender_id'' (map User.id (users s)) (Message.sender_id m) @
     foreign_key ''messages.recipient_id'' (map User.id (users s))
       (Message.recipient_id m) @
     foreign_key ''messages.contact_request_id''
       (map ContactRequest.id (contact_requests s)) (Message.contact_request_id m)"

definition persist_Message :: "Store \<Rightarrow> Message \<Rightarrow> error + Message \<times> Store" where
  "persist_Message s m =
     (let row = m\<lparr>Message.id :=
                   Some (assign_id (map Message.id (messages s)) (Message.id m))\<rparr>
      in commit (Message_violations s m) (row, s\<lparr>messages := messages s @ [row]\<rparr>))"

subsection \<open>Reading and updating a message\<close>

definition get_Message :: "Store \<Rightarrow> int \<Rightarrow> Message option" where
  "get_Message s i = find (\<lambda>m. Message.id m = Some i) (messages s)"

text \<open>
  An update of a persisted message assigns some of its attributes and commits: the row
  with the message's \<open>id\<close> is replaced by the message with the assignments made, in
  their order, and no other row is touched. The attributes that can be assigned here are
  the four that carry the message's state (lines 153-157); none of them has a constraint
  to check.
\<close>

datatype Message_assignment =
    Set_status MessageStatus
  | Set_read_at "datetime option"
  | Set_deleted_by_sender bool
  | Set_deleted_by_recipient bool

fun assign_Message :: "Message_assignment \<Rightarrow> Message \<Rightarrow> Message" where
  "assign_Message (Set_status v) m = m\<lparr>Message.status := v\<rparr>"
| "assign_Message (Set_read_at v) m = m\<lparr>Message.read_at := v\<rparr>"
| "assign_Message (Set_deleted_by_sender v) m = m\<lparr>Message.deleted_by_sender := v\<rparr>"
| "assign_Message (Set_deleted_by_recipient v) m = m\<lparr>Message.deleted_by_recipient := v\<rparr>"

definition update_Message :: "Store \<Rightarrow> int \<Rightarrow> Message_assignment list \<Rightarrow> Store" where
  "update_Message s i assignments =
     s\<lparr>messages :=
         map (\<lambda>m. if Message.id m = Some i then fold assign_Message assignments m else m)
           (messages s)\<rparr>"

subsection \<open>Reachable stores\<close>

text \<open>
  A store is reachable when it results from the empty store by successful inserts and by
  updates of messages.
\<close>

inductive reachable :: "Store \<Rightarrow> bool" where
  reachable_empty: "reachable empty_store"
| reachable_User: "reachable s \<Longrightarrow> persist_User s u = Inr (row, s') \<Longrightarrow> reachable s'"
| reachable_WikipediaImage:
    "reachable s \<Longrightarrow> persist_WikipediaImage s w = Inr (row, s') \<Longrightarrow> reachable s'"
| reachable_JournalEntry:
    "reachable s \<Longrightarrow> persist_JournalEntry s e = Inr (row, s') \<Longrightarrow> reachable s'"
| reachable_SharedEntry:
    "reachable s \<Longrightarrow> persist_SharedEntry s e = Inr (row, s') \<Longrightarrow> reachable s'"
| reachable_EntryLike:
    "reachable s \<Longrightarrow> persist_EntryLike s l = Inr (row, s') \<Longrightarrow> reachable s'"
| reachable_ContactRequest:
    "reachable s \<Longrightarrow> persist_ContactRequest s r = Inr (row, s') \<Longrightarrow> reachable s'"
| reachable_Message:
    "reachable s \<Longrightarrow> persist_Message s m = Inr (row, s') \<Longrightarrow> reachable s'"
| reachable_update_Message:
    "reachable s \<Longrightarrow> reachable (update_Message s i assignments)"

subsection \<open>An example store\<close>

text \<open>
  The store of the end-to-end example of the spec (section 8), before the first like: two
  users, the image of 2024-01-01 (day 738886), a shared journal entry of the first user,
  its \<open>SharedEntry\<close>, and an approved contact request of the second user to the first.
\<close>

definition user_a :: User where
  "user_a = User_init 0 ''alice'' ''alice@example.org'' ''hash-a'' ''Alice'' (Some 1)
             None None None None"

definition user_b :: User where
  "user_b = User_init 1 ''bob'' ''bob@example.org'' ''hash-b'' ''Bob'' (Some 2)
           None None None None"

definition image_a :: WikipediaImage where
  "image_a = WikipediaImage_init 2 738886 ''Dawn'' ''Dawn over a lake''
             ''https://example.org/dawn.jpg'' ''https://example.org/dawn'' ''CC0'' (Some 1)
             None None"

definition entry_a :: JournalEntry where
  "entry_a = JournalEntry_init 3 1 1 738886 ''Morning'' ''A quiet morning.'' (Some 1)
             (Some True) None None"

definition shared_a :: SharedEntry where
  "shared_a = SharedEntry_init 4 1 (Some 1) None None None None None None None"

definition request_b :: ContactRequest where
  "request_b = ContactRequest_init 5 2 1 1 (Some 1) (Some ContactRequestStatus.APPROVED)
               None None (Some 6) None"

text \<open>
  Records to be persisted into the example store: a user with the username of the first
  user, a second \<open>SharedEntry\<close> for the journal entry, a like of the second user, and a
  message of the second user to the first.
\<close>

definition user_c :: User where
  "user_c = User_init 7 ''alice'' ''alice@example.net'' ''hash-c'' ''Alice Again'' None
              None None None None"

definition shared_c :: SharedEntry where
  "shared_c = SharedEntry_init 8 1 None None None None None None None None"

definition like_b :: EntryLike where
  "like_b = EntryLike_init 9 2 1 None None"

definition message_b :: Message where
  "message_b = Message_init 10 2 1 1 ''Hello'' ''I liked your entry.'' None None None None
                 None None"

definition example_store :: Store where
  "example_store =
     \<lparr>users = [user_a, user_b], wikipedia_images = [image_a], journal_entries = [entry_a],
      shared_entries = [shared_a], entry_likes = [], contact_requests = [request_b],
      messages = []\<rparr>"

section \<open>Properties of the declarations\<close>

text \<open>
  C5. The wire value of every member of the three enumerations is the exact lowercase
  string of the source, and the members listed are the only ones of each enumeration.
\<close>

theorem enum_wire_values:
  "map ContactRequestStatus_value
     [ContactRequestStatus.PENDING, ContactRequestStatus.APPROVED,
      ContactRequestStatus.DECLINED] = [''pending'', ''approved'', ''declined'']
   \<and> (UNIV :: ContactRequestStatus set) =
     {ContactRequestStatus.PENDING, ContactRequestStatus.APPROVED,
      ContactRequestStatus.DECLINED}
   \<and> map MessageStatus_value [MessageStatus.SENT, MessageStatus.READ, MessageStatus.DELETED]
     = [''sent'', ''read'', ''deleted'']
   \<and> (UNIV :: MessageStatus set) =
     {MessageStatus.SENT, MessageStatus.READ, MessageStatus.DELETED}
   \<and> map ModerationStatus_value
     [ModerationStatus.PENDING, ModerationStatus.APPROVED, ModerationStatus.REJECTED,
      ModerationStatus.FLAGGED] = [''pending'', ''approved'', ''rejected'', ''flagged'']
   \<and> (UNIV :: ModerationStatus set) =
     {ModerationStatus.PENDING, ModerationStatus.APPROVED, ModerationStatus.REJECTED,
      ModerationStatus.FLAGGED}"
proof -
  have c: "(UNIV :: ContactRequestStatus set) =
      {ContactRequestStatus.PENDING, ContactRequestStatus.APPROVED,
       ContactRequestStatus.DECLINED}"
    using ContactRequestStatus.exhaust by blast
  have m: "(UNIV :: MessageStatus set) =
      {MessageStatus.SENT, MessageStatus.READ, MessageStatus.DELETED}"
    using MessageStatus.exhaust by blast
  have d: "(UNIV :: ModerationStatus set) =
      {ModerationStatus.PENDING, ModerationStatus.APPROVED, ModerationStatus.REJECTED,
       ModerationStatus.FLAGGED}"
    using ModerationStatus.exhaust by blast
  show ?thesis
    using c m d by simp
qed

text \<open>
  C7. A \<open>SharedEntry\<close> constructed without a \<open>moderation_status\<close> argument has
  \<open>moderation_status = ModerationStatus.PENDING\<close>, whose wire value is \<open>"pending"\<close>, whatever
  its other arguments are.
\<close>

theorem shared_entry_starts_pending:
  "SharedEntry.moderation_status
     (SharedEntry_init now jid i None moderator moderated notes shared views likes)
     = ModerationStatus.PENDING
   \<and> ModerationStatus_value
     (SharedEntry.moderation_status
        (SharedEntry_init now jid i None moderator moderated notes shared views likes))
     = ''pending''"
  by (simp add: SharedEntry_init_def)

text \<open>
  C9. A \<open>User\<close> constructed without the \<open>is_active\<close> and \<open>is_admin\<close> arguments is active
  and is not an admin, whatever its other arguments are.
\<close>

theorem user_default_flags:
  "User.is_active (User_init now un em ph fn i None None joined login) = True
   \<and> User.is_admin (User_init now un em ph fn i None None joined login) = False"
  by (simp add: User_init_def)

text \<open>
  C10. A \<open>JournalEntry\<close> constructed without an \<open>is_shared\<close> argument has
  \<open>is_shared = False\<close>; and a \<open>JournalEntryCreate\<close> input that omits \<open>is_shared\<close> yields,
  whenever it validates, a record with \<open>is_shared = False\<close>, and it validates whenever the
  title has at most 200 and the content at most 5000 characters.
\<close>

theorem journal_entry_private_by_default:
  "JournalEntry.is_shared (JournalEntry_init now uid wid d t c i None created updated) = False
   \<and> (\<forall>r. JournalEntryCreate_init t c None = Inr r \<longrightarrow>
          JournalEntryCreate.is_shared r = False)
   \<and> (length t \<le> 200 \<and> length c \<le> 5000 \<longrightarrow>
        JournalEntryCreate_init t c None =
          Inr \<lparr>JournalEntryCreate.title = t, JournalEntryCreate.content = c,
               JournalEntryCreate.is_shared = False\<rparr>)"
  by (auto simp: JournalEntry_init_def JournalEntryCreate_init_def max_length_def check_def Let_def
      split: if_splits)

theorem journal_entry_private_by_default_witness:
  "JournalEntry.is_shared
     (JournalEntry_init 0 1 1 0 ''Dawn'' ''A quiet morning.'' None None None None) = False
   \<and> JournalEntryCreate_init ''Dawn'' ''A quiet morning.'' None =
       Inr \<lparr>JournalEntryCreate.title = ''Dawn'',
            JournalEntryCreate.content = ''A quiet morning.'',
            JournalEntryCreate.is_shared = False\<rparr>
   \<and> JournalEntryCreate.is_shared
       \<lparr>JournalEntryCreate.title = ''Dawn'',
        JournalEntryCreate.content = ''A quiet morning.'',
        JournalEntryCreate.is_shared = False\<rparr> = False"
  using journal_entry_private_by_default
    [of 0 1 1 0 "''Dawn''" "''A quiet morning.''" None None None]
  by simp

text \<open>
  C4. Constructing a \<open>JournalEntryCreate\<close> whose content is longer than 5000 characters
  fails with a \<open>ValidationError\<close> that names \<open>content\<close>; with a title of at most 200 and a
  content of at most 5000 characters it succeeds and returns the record of its arguments.
\<close>

theorem journal_entry_create_validation:
  "(5000 < length c \<longrightarrow>
      (\<exists>fields. JournalEntryCreate_init t c shared = Inl (ValidationError fields)
         \<and> ''content'' \<in> set fields))
   \<and> (length t \<le> 200 \<and> length c \<le> 5000 \<longrightarrow>
        JournalEntryCreate_init t c shared =
          Inr \<lparr>JournalEntryCreate.title = t, JournalEntryCreate.content = c,
               JournalEntryCreate.is_shared = field_default False shared\<rparr>)"
  by (simp add: JournalEntryCreate_init_def max_length_def check_def Let_def)

theorem journal_entry_create_validation_witness:
  "JournalEntryCreate_init ''Dawn'' (replicate 5001 CHR ''a'') (Some True)
     = Inl (ValidationError [''content''])
   \<and> JournalEntryCreate_init ''Dawn'' (replicate 5000 CHR ''a'') (Some True)
     = Inr \<lparr>JournalEntryCreate.title = ''Dawn'',
            JournalEntryCreate.content = replicate 5000 CHR ''a'',
            JournalEntryCreate.is_shared = True\<rparr>"
proof -
  have long: "5000 < length (replicate 5001 CHR ''a'')"
    by simp
  have short: "length ''Dawn'' \<le> 200 \<and> length (replicate 5000 CHR ''a'') \<le> 5000"
    by simp
  from long journal_entry_create_validation
    [of "replicate 5001 CHR ''a''" "''Dawn''" "Some True"]
  have "\<exists>fields. JournalEntryCreate_init ''Dawn'' (replicate 5001 CHR ''a'') (Some True)
      = Inl (ValidationError fields)"
    by blast
  then have bad: "JournalEntryCreate_init ''Dawn'' (replicate 5001 CHR ''a'') (Some True)
      = Inl (ValidationError [''content''])"
    by (simp add: JournalEntryCreate_init_def max_length_def check_def Let_def)
  from short journal_entry_create_validation
    [of "replicate 5000 CHR ''a''" "''Dawn''" "Some True"]
  have good: "JournalEntryCreate_init ''Dawn'' (replicate 5000 CHR ''a'') (Some True)
      = Inr \<lparr>JournalEntryCreate.title = ''Dawn'',
             JournalEntryCreate.content = replicate 5000 CHR ''a'',
             JournalEntryCreate.is_shared = True\<rparr>"
    by simp
  from bad good show ?thesis
    by simp
qed

section \<open>Properties of the storage layer\<close>

subsection \<open>Inserts and fresh identifiers\<close>

lemma commit_Inr: "commit vs r = Inr x \<longleftrightarrow> vs = [] \<and> x = r"
  by (cases vs) auto

lemma commit_fails: "vs \<noteq> [] \<Longrightarrow> \<exists>c. commit vs r = Inl (ConstraintViolation c)"
  by (cases vs) auto

lemma fold_max_ge:
  "m \<le> fold (\<lambda>i m. case i of None \<Rightarrow> m | Some k \<Rightarrow> max k m) ids (m::int)"
proof (induction ids arbitrary: m)
  case Nil
  show ?case by simp
next
  case (Cons i ids)
  show ?case
  proof (cases i)
    case None
    with Cons show ?thesis by simp
  next
    case (Some k)
    have "m \<le> max k m" by simp
    also have "\<dots> \<le> fold (\<lambda>i m. case i of None \<Rightarrow> m | Some k \<Rightarrow> max k m) ids (max k m)"
      by (rule Cons.IH)
    finally show ?thesis using Some by simp
  qed
qed

lemma fold_max_mem:
  "Some k \<in> set ids \<Longrightarrow> k \<le> fold (\<lambda>i m. case i of None \<Rightarrow> m | Some k \<Rightarrow> max k m) ids (m::int)"
proof (induction ids arbitrary: m)
  case Nil
  then show ?case by simp
next
  case (Cons i ids)
  show ?case
  proof (cases "i = Some k")
    case True
    have "k \<le> max k m" by simp
    also have "\<dots> \<le> fold (\<lambda>i m. case i of None \<Rightarrow> m | Some k \<Rightarrow> max k m) ids (max k m)"
      by (rule fold_max_ge)
    finally show ?thesis using True by simp
  next
    case False
    with Cons.prems have "Some k \<in> set ids" by simp
    then show ?thesis using Cons.IH by (cases i) simp_all
  qed
qed

lemma next_id_fresh: "Some k \<in> set ids \<Longrightarrow> k < next_id ids"
  using fold_max_mem [of k ids 0] by (simp add: next_id_def)

lemma assign_id_fresh: "primary_key name ids i = [] \<Longrightarrow> Some (assign_id ids i) \<notin> set ids"
  using next_id_fresh [of "next_id ids" ids]
  by (auto simp: primary_key_def assign_id_def split: option.splits if_splits)

lemma unique_violated: "v \<in> set column \<Longrightarrow> unique name column v = [name]"
  by (simp add: unique_def)

lemma unique_ok: "unique name column v = [] \<longleftrightarrow> v \<notin> set column"
  by (simp add: unique_def)

lemma persist_User_Inr:
  "persist_User s u = Inr (row, s') \<longleftrightarrow>
     User_violations s u = [] \<and>
     row = u\<lparr>User.id := Some (assign_id (map User.id (users s)) (User.id u))\<rparr> \<and>
     s' = s\<lparr>users := users s @ [row]\<rparr>"
  by (auto simp: persist_User_def Let_def commit_Inr)

lemma persist_User_taken:
  assumes "u1 \<in> set (users s)"
    and "User.username u2 = User.username u1 \<or> User.email u2 = User.email u1"
  shows "\<exists>c. persist_User s u2 = Inl (ConstraintViolation c)"
proof -
  from assms have "User.username u2 \<in> set (map User.username (users s))
      \<or> User.email u2 \<in> set (map User.email (users s))"
    by force
  then have "User_violations s u2 \<noteq> []"
    by (auto simp: User_violations_def unique_def)
  then show ?thesis
    unfolding persist_User_def Let_def by (rule commit_fails)
qed

lemma users_unchanged:
  "persist_WikipediaImage s w = Inr (rw, s') \<Longrightarrow> users s' = users s"
  "persist_JournalEntry s e = Inr (re, s') \<Longrightarrow> users s' = users s"
  "persist_SharedEntry s se = Inr (rse, s') \<Longrightarrow> users s' = users s"
  "persist_EntryLike s l = Inr (rl, s') \<Longrightarrow> users s' = users s"
  "persist_ContactRequest s r = Inr (rr, s') \<Longrightarrow> users s' = users s"
  "persist_Message s m = Inr (rm, s') \<Longrightarrow> users s' = users s"
  "users (update_Message s i assignments) = users s"
  by (auto simp: persist_WikipediaImage_def persist_JournalEntry_def persist_SharedEntry_def
      persist_EntryLike_def persist_ContactRequest_def persist_Message_def update_Message_def
      Let_def commit_Inr)

lemma users_distinct:
  "reachable s \<Longrightarrow>
     distinct (map User.username (users s)) \<and> distinct (map User.email (users s))"
proof (induction rule: reachable.induct)
  case reachable_empty
  show ?case by (simp add: empty_store_def)
next
  case (reachable_User s u row s')
  from reachable_User.hyps(2) have v: "User_violations s u = []"
    and row: "row = u\<lparr>User.id := Some (assign_id (map User.id (users s)) (User.id u))\<rparr>"
    and s': "s' = s\<lparr>users := users s @ [row]\<rparr>"
    by (simp_all add: persist_User_Inr)
  from v have "User.username u \<notin> set (map User.username (users s))"
    and "User.email u \<notin> set (map User.email (users s))"
    by (simp_all add: User_violations_def unique_ok)
  with reachable_User.IH row s' show ?case by simp
qed (simp_all add: users_unchanged)

subsection \<open>The example store is reachable\<close>

lemma persist_User_explicit_id:
  "User_violations s u = [] \<Longrightarrow> User.id u = Some k \<Longrightarrow>
     persist_User s u = Inr (u, s\<lparr>users := users s @ [u]\<rparr>)"
  by (simp add: persist_User_def assign_id_def Let_def)

lemma persist_WikipediaImage_explicit_id:
  "WikipediaImage_violations s w = [] \<Longrightarrow> WikipediaImage.id w = Some k \<Longrightarrow>
     persist_WikipediaImage s w = Inr (w, s\<lparr>wikipedia_images := wikipedia_images s @ [w]\<rparr>)"
  by (simp add: persist_WikipediaImage_def assign_id_def Let_def)

lemma persist_JournalEntry_explicit_id:
  "JournalEntry_violations s e = [] \<Longrightarrow> JournalEntry.id e = Some k \<Longrightarrow>
     persist_JournalEntry s e = Inr (e, s\<lparr>journal_entries := journal_entries s @ [e]\<rparr>)"
  by (simp add: persist_JournalEntry_def assign_id_def Let_def)

lemma persist_SharedEntry_explicit_id:
  "SharedEntry_violations s e = [] \<Longrightarrow> SharedEntry.id e = Some k \<Longrightarrow>
     persist_SharedEntry s e = Inr (e, s\<lparr>shared_entries := shared_entries s @ [e]\<rparr>)"
  by (simp add: persist_SharedEntry_def assign_id_def Let_def)

lemma persist_ContactRequest_explicit_id:
  "ContactRequest_violations s r = [] \<Longrightarrow> ContactRequest.id r = Some k \<Longrightarrow>
     persist_ContactRequest s r =
       Inr (r, s\<lparr>contact_requests := contact_requests s @ [r]\<rparr>)"
  by (simp add: persist_ContactRequest_def assign_id_def Let_def)

lemma example_ids:
  "User.id user_a = Some 1" "User.id user_b = Some 2" "WikipediaImage.id image_a = Some 1"
  "JournalEntry.id entry_a = Some 1" "SharedEntry.id shared_a = Some 1"
  "ContactRequest.id request_b = Some 1"
  by (simp_all add: user_a_def user_b_def image_a_def entry_a_def shared_a_def request_b_def
      User_init_def WikipediaImage_init_def JournalEntry_init_def SharedEntry_init_def
      ContactRequest_init_def)

lemma example_keys:
  "User.username user_a = ''alice''" "User.username user_b = ''bob''"
  "User.email user_a = ''alice@example.org''" "User.email user_b = ''bob@example.org''"
  "JournalEntry.user_id entry_a = 1" "JournalEntry.wikipedia_image_id entry_a = 1"
  "SharedEntry.journal_entry_id shared_a = 1" "SharedEntry.moderated_by shared_a = None"
  "ContactRequest.requester_id request_b = 2" "ContactRequest.requested_id request_b = 1"
  "ContactRequest.shared_entry_id request_b = 1"
  by (simp_all add: user_a_def user_b_def image_a_def entry_a_def shared_a_def request_b_def
      User_init_def WikipediaImage_init_def JournalEntry_init_def SharedEntry_init_def
      ContactRequest_init_def)

lemma example_store_reachable: "reachable example_store"
proof -
  let ?s1 = "empty_store\<lparr>users := [user_a]\<rparr>"
  let ?s2 = "empty_store\<lparr>users := [user_a, user_b]\<rparr>"
  let ?s3 = "?s2\<lparr>wikipedia_images := [image_a]\<rparr>"
  let ?s4 = "?s3\<lparr>journal_entries := [entry_a]\<rparr>"
  let ?s5 = "?s4\<lparr>shared_entries := [shared_a]\<rparr>"
  let ?s6 = "?s5\<lparr>contact_requests := [request_b]\<rparr>"
  have "User_violations empty_store user_a = []"
    by (simp add: User_violations_def primary_key_def unique_def empty_store_def)
  then have "persist_User empty_store user_a = Inr (user_a, ?s1)"
    using persist_User_explicit_id [of empty_store user_a 1]
    by (simp add: example_ids empty_store_def)
  with reachable_empty have r1: "reachable ?s1"
    by (rule reachable_User)
  have "User_violations ?s1 user_b = []"
    by (simp add: User_violations_def primary_key_def unique_def empty_store_def
        example_ids example_keys)
  then have "persist_User ?s1 user_b = Inr (user_b, ?s2)"
    using persist_User_explicit_id [of ?s1 user_b 2]
    by (simp add: example_ids empty_store_def)
  with r1 have r2: "reachable ?s2"
    by (rule reachable_User)
  have "WikipediaImage_violations ?s2 image_a = []"
    by (simp add: WikipediaImage_violations_def primary_key_def unique_def empty_store_def)
  then have "persist_WikipediaImage ?s2 image_a = Inr (image_a, ?s3)"
    using persist_WikipediaImage_explicit_id [of ?s2 image_a 1]
    by (simp add: example_ids empty_store_def)
  with r2 have r3: "reachable ?s3"
    by (rule reachable_WikipediaImage)
  have "JournalEntry_violations ?s3 entry_a = []"
    by (simp add: JournalEntry_violations_def primary_key_def foreign_key_def
        empty_store_def example_ids example_keys)
  then have "persist_JournalEntry ?s3 entry_a = Inr (entry_a, ?s4)"
    using persist_JournalEntry_explicit_id [of ?s3 entry_a 1]
    by (simp add: example_ids empty_store_def)
  with r3 have r4: "reachable ?s4"
    by (rule reachable_JournalEntry)
  have "SharedEntry_violations ?s4 shared_a = []"
    by (simp add: SharedEntry_violations_def primary_key_def unique_def foreign_key_def
        empty_store_def example_ids example_keys)
  then have "persist_SharedEntry ?s4 shared_a = Inr (shared_a, ?s5)"
    using persist_SharedEntry_explicit_id [of ?s4 shared_a 1]
    by (simp add: example_ids empty_store_def)
  with r4 have r5: "reachable ?s5"
    by (rule reachable_SharedEntry)
  have "ContactRequest_violations ?s5 request_b = []"
    by (simp add: ContactRequest_violations_def primary_key_def foreign_key_def
        empty_store_def example_ids example_keys)
  then have "persist_ContactRequest ?s5 request_b = Inr (request_b, ?s6)"
    using persist_ContactRequest_explicit_id [of ?s5 request_b 1]
    by (simp add: example_ids empty_store_def)
  with r5 have "reachable ?s6"
    by (rule reachable_ContactRequest)
  moreover have "?s6 = example_store"
    by (simp add: example_store_def empty_store_def)
  ultimately show ?thesis by simp
qed

subsection \<open>Unique usernames and emails\<close>

text \<open>
  C1. Once a \<open>User\<close> has been persisted, persisting a second \<open>User\<close> with the same
  username (or the same email) fails with a \<open>ConstraintViolation\<close>, both right after the
  first insert and in any store that holds the first user; and in every reachable store the
  usernames of the users are pairwise different, and so are their emails.
\<close>

theorem users_unique:
  "(persist_User s u1 = Inr (row, s1) \<and>
      (User.username u2 = User.username u1 \<or> User.email u2 = User.email u1) \<longrightarrow>
        (\<exists>c. persist_User s1 u2 = Inl (ConstraintViolation c)))
   \<and> (u1 \<in> set (users s) \<and>
      (User.username u2 = User.username u1 \<or> User.email u2 = User.email u1) \<longrightarrow>
        (\<exists>c. persist_User s u2 = Inl (ConstraintViolation c)))
   \<and> (reachable s \<longrightarrow>
        distinct (map User.username (users s)) \<and> distinct (map User.email (users s)))"
proof (intro conjI impI)
  assume a: "persist_User s u1 = Inr (row, s1) \<and>
      (User.username u2 = User.username u1 \<or> User.email u2 = User.email u1)"
  then have "row \<in> set (users s1)" and "User.username row = User.username u1"
    and "User.email row = User.email u1"
    by (simp_all add: persist_User_Inr)
  with a show "\<exists>c. persist_User s1 u2 = Inl (ConstraintViolation c)"
    using persist_User_taken [of row s1 u2] by simp
next
  assume "u1 \<in> set (users s) \<and>
      (User.username u2 = User.username u1 \<or> User.email u2 = User.email u1)"
  then show "\<exists>c. persist_User s u2 = Inl (ConstraintViolation c)"
    using persist_User_taken [of u1 s u2] by simp
next
  assume "reachable s"
  then show "distinct (map User.username (users s))"
    by (simp add: users_distinct)
next
  assume "reachable s"
  then show "distinct (map User.email (users s))"
    by (simp add: users_distinct)
qed

theorem users_unique_witness:
  "persist_User empty_store user_a = Inr (user_a, empty_store\<lparr>users := [user_a]\<rparr>)
   \<and> User.username user_c = User.username user_a
   \<and> (\<exists>c. persist_User (empty_store\<lparr>users := [user_a]\<rparr>) user_c
          = Inl (ConstraintViolation c))
   \<and> user_a \<in> set (users example_store)
   \<and> (\<exists>c. persist_User example_store user_c = Inl (ConstraintViolation c))
   \<and> reachable example_store
   \<and> distinct (map User.username (users example_store))
   \<and> distinct (map User.email (users example_store))"
proof -
  have v: "User_violations empty_store user_a = []"
    by (simp add: User_violations_def primary_key_def unique_def empty_store_def)
  have p: "persist_User empty_store user_a = Inr (user_a, empty_store\<lparr>users := [user_a]\<rparr>)"
    using persist_User_explicit_id [OF v, of 1] by (simp add: example_ids empty_store_def)
  have n: "User.username user_c = User.username user_a"
    by (simp add: user_c_def User_init_def example_keys)
  have m: "user_a \<in> set (users example_store)"
    by (simp add: example_store_def)
  from p n have 1: "\<exists>c. persist_User (empty_store\<lparr>users := [user_a]\<rparr>) user_c
      = Inl (ConstraintViolation c)"
    using users_unique [of empty_store user_a user_a "empty_store\<lparr>users := [user_a]\<rparr>" user_c]
    by blast
  from m n have 2: "\<exists>c. persist_User example_store user_c = Inl (ConstraintViolation c)"
    using users_unique [of example_store user_a user_a example_store user_c]
    by blast
  have 3: "distinct (map User.username (users example_store))
      \<and> distinct (map User.email (users example_store))"
    using users_unique [of example_store user_a user_a example_store user_c]
      example_store_reachable by blast
  from p n 1 m 2 3 example_store_reachable show ?thesis
    by blast
qed

subsection \<open>One shared entry for each journal entry\<close>

lemma persist_SharedEntry_Inr:
  "persist_SharedEntry s e = Inr (row, s') \<longleftrightarrow>
     SharedEntry_violations s e = [] \<and>
     row = e\<lparr>SharedEntry.id :=
               Some (assign_id (map SharedEntry.id (shared_entries s)) (SharedEntry.id e))\<rparr> \<and>
     s' = s\<lparr>shared_entries := shared_entries s @ [row]\<rparr>"
  by (auto simp: persist_SharedEntry_def Let_def commit_Inr)

lemma persist_SharedEntry_taken:
  assumes "e1 \<in> set (shared_entries s)"
    and "SharedEntry.journal_entry_id e2 = SharedEntry.journal_entry_id e1"
  shows "\<exists>c. persist_SharedEntry s e2 = Inl (ConstraintViolation c)"
proof -
  from assms have "SharedEntry.journal_entry_id e2
      \<in> set (map SharedEntry.journal_entry_id (shared_entries s))"
    by force
  then have "SharedEntry_violations s e2 \<noteq> []"
    by (simp add: SharedEntry_violations_def unique_def)
  then show ?thesis
    unfolding persist_SharedEntry_def Let_def by (rule commit_fails)
qed

lemma shared_entries_unchanged:
  "persist_User s u = Inr (ru, s') \<Longrightarrow> shared_entries s' = shared_entries s"
  "persist_WikipediaImage s w = Inr (rw, s') \<Longrightarrow> shared_entries s' = shared_entries s"
  "persist_JournalEntry s e = Inr (re, s') \<Longrightarrow> shared_entries s' = shared_entries s"
  "persist_EntryLike s l = Inr (rl, s') \<Longrightarrow> shared_entries s' = shared_entries s"
  "persist_ContactRequest s r = Inr (rr, s') \<Longrightarrow> shared_entries s' = shared_entries s"
  "persist_Message s m = Inr (rm, s') \<Longrightarrow> shared_entries s' = shared_entries s"
  "shared_entries (update_Message s i assignments) = shared_entries s"
  by (auto simp: persist_User_def persist_WikipediaImage_def persist_JournalEntry_def
      persist_EntryLike_def persist_ContactRequest_def persist_Message_def update_Message_def
      Let_def commit_Inr)

lemma shared_entries_distinct:
  "reachable s \<Longrightarrow> distinct (map SharedEntry.journal_entry_id (shared_entries s))"
proof (induction rule: reachable.induct)
  case reachable_empty
  show ?case by (simp add: empty_store_def)
next
  case (reachable_SharedEntry s e row s')
  from reachable_SharedEntry.hyps(2) have v: "SharedEntry_violations s e = []"
    and row: "row = e\<lparr>SharedEntry.id :=
        Some (assign_id (map SharedEntry.id (shared_entries s)) (SharedEntry.id e))\<rparr>"
    and s': "s' = s\<lparr>shared_entries := shared_entries s @ [row]\<rparr>"
    by (simp_all add: persist_SharedEntry_Inr)
  from v have "SharedEntry.journal_entry_id e
      \<notin> set (map SharedEntry.journal_entry_id (shared_entries s))"
    by (simp add: SharedEntry_violations_def unique_ok)
  with reachable_SharedEntry.IH row s' show ?case by simp
qed (simp_all add: shared_entries_unchanged)

lemma distinct_key_at_most_one:
  "distinct (map f xs) \<Longrightarrow> length (filter (\<lambda>x. f x = k) xs) \<le> 1"
proof (induction xs)
  case Nil
  show ?case by simp
next
  case (Cons x xs)
  show ?case
  proof (cases "f x = k")
    case True
    with Cons.prems have "k \<notin> f ` set xs" by auto
    then have "filter (\<lambda>x. f x = k) xs = []"
      by (auto simp: filter_empty_conv)
    with True show ?thesis by simp
  next
    case False
    with Cons show ?thesis by simp
  qed
qed

text \<open>
  C3. Once a \<open>SharedEntry\<close> has been persisted, persisting a second one with the same
  \<open>journal_entry_id\<close> fails with a \<open>ConstraintViolation\<close>, both right after the first insert
  and in any store that holds the first; and in every reachable store the
  \<open>journal_entry_id\<close>s of the shared entries are pairwise different, so that at most one
  \<open>SharedEntry\<close> refers to a journal entry \<open>j\<close>.
\<close>

theorem shared_entry_unique:
  "(persist_SharedEntry s e1 = Inr (row, s1) \<and>
      SharedEntry.journal_entry_id e2 = SharedEntry.journal_entry_id e1 \<longrightarrow>
        (\<exists>c. persist_SharedEntry s1 e2 = Inl (ConstraintViolation c)))
   \<and> (e1 \<in> set (shared_entries s) \<and>
      SharedEntry.journal_entry_id e2 = SharedEntry.journal_entry_id e1 \<longrightarrow>
        (\<exists>c. persist_SharedEntry s e2 = Inl (ConstraintViolation c)))
   \<and> (reachable s \<longrightarrow>
        distinct (map SharedEntry.journal_entry_id (shared_entries s)) \<and>
        length (filter (\<lambda>e. SharedEntry.journal_entry_id e = j) (shared_entries s)) \<le> 1)"
proof (intro conjI impI)
  assume a: "persist_SharedEntry s e1 = Inr (row, s1) \<and>
      SharedEntry.journal_entry_id e2 = SharedEntry.journal_entry_id e1"
  then have "row \<in> set (shared_entries s1)"
    and "SharedEntry.journal_entry_id row = SharedEntry.journal_entry_id e1"
    by (simp_all add: persist_SharedEntry_Inr)
  with a show "\<exists>c. persist_SharedEntry s1 e2 = Inl (ConstraintViolation c)"
    using persist_SharedEntry_taken [of row s1 e2] by simp
next
  assume "e1 \<in> set (shared_entries s) \<and>
      SharedEntry.journal_entry_id e2 = SharedEntry.journal_entry_id e1"
  then show "\<exists>c. persist_SharedEntry s e2 = Inl (ConstraintViolation c)"
    using persist_SharedEntry_taken [of e1 s e2] by simp
next
  assume "reachable s"
  then show "distinct (map SharedEntry.journal_entry_id (shared_entries s))"
    by (rule shared_entries_distinct)
next
  assume "reachable s"
  then have "distinct (map SharedEntry.journal_entry_id (shared_entries s))"
    by (rule shared_entries_distinct)
  then show "length (filter (\<lambda>e. SharedEntry.journal_entry_id e = j) (shared_entries s)) \<le> 1"
    by (rule distinct_key_at_most_one)
qed

lemma example_store_shared_a:
  "persist_SharedEntry (example_store\<lparr>shared_entries := []\<rparr>) shared_a
     = Inr (shared_a, example_store)"
proof -
  have "SharedEntry_violations (example_store\<lparr>shared_entries := []\<rparr>) shared_a = []"
    by (simp add: SharedEntry_violations_def primary_key_def unique_def foreign_key_def
        example_store_def example_ids example_keys)
  then show ?thesis
    using persist_SharedEntry_explicit_id
      [of "example_store\<lparr>shared_entries := []\<rparr>" shared_a 1]
    by (simp add: example_ids example_store_def)
qed

theorem shared_entry_unique_witness:
  "persist_SharedEntry (example_store\<lparr>shared_entries := []\<rparr>) shared_a
     = Inr (shared_a, example_store)
   \<and> SharedEntry.journal_entry_id shared_c = SharedEntry.journal_entry_id shared_a
   \<and> shared_a \<in> set (shared_entries example_store)
   \<and> (\<exists>c. persist_SharedEntry example_store shared_c = Inl (ConstraintViolation c))
   \<and> reachable example_store
   \<and> distinct (map SharedEntry.journal_entry_id (shared_entries example_store))
   \<and> length (filter (\<lambda>e. SharedEntry.journal_entry_id e = 1) (shared_entries example_store))
       \<le> 1"
proof -
  note p = example_store_shared_a
  have n: "SharedEntry.journal_entry_id shared_c = SharedEntry.journal_entry_id shared_a"
    by (simp add: shared_c_def SharedEntry_init_def example_keys)
  have m: "shared_a \<in> set (shared_entries example_store)"
    by (simp add: example_store_def)
  from p n have 1: "\<exists>c. persist_SharedEntry example_store shared_c
      = Inl (ConstraintViolation c)"
    using shared_entry_unique
      [of "example_store\<lparr>shared_entries := []\<rparr>" shared_a shared_a example_store shared_c]
    by blast
  have 3: "distinct (map SharedEntry.journal_entry_id (shared_entries example_store))
      \<and> length (filter (\<lambda>e. SharedEntry.journal_entry_id e = 1)
            (shared_entries example_store)) \<le> 1"
    using shared_entry_unique [of example_store shared_a shared_a example_store shared_c 1]
      example_store_reachable by blast
  from p n m 1 3 example_store_reachable show ?thesis
    by blast
qed

subsection \<open>Likes are not unique\<close>

lemma persist_EntryLike_Inr:
  "persist_EntryLike s l = Inr (row, s') \<longleftrightarrow>
     EntryLike_violations s l = [] \<and>
     row = l\<lparr>EntryLike.id :=
               Some (assign_id (map EntryLike.id (entry_likes s)) (EntryLike.id l))\<rparr> \<and>
     s' = s\<lparr>entry_likes := entry_likes s @ [row]\<rparr>"
  by (auto simp: persist_EntryLike_def Let_def commit_Inr)

lemma EntryLike_violations_auto_id:
  assumes "EntryLike.id l = None"
  shows "EntryLike_violations s l =
     foreign_key ''entry_likes.user_id'' (map User.id (users s)) (EntryLike.user_id l) @
     foreign_key ''entry_likes.shared_entry_id'' (map SharedEntry.id (shared_entries s))
       (EntryLike.shared_entry_id l)"
  using assms by (simp add: EntryLike_violations_def primary_key_def)

lemma EntryLike_foreign_keys:
  assumes "EntryLike_violations s l = []"
  shows "foreign_key ''entry_likes.user_id'' (map User.id (users s)) (EntryLike.user_id l) = []"
    and "foreign_key ''entry_likes.shared_entry_id'' (map SharedEntry.id (shared_entries s))
       (EntryLike.shared_entry_id l) = []"
  using assms by (simp_all add: EntryLike_violations_def)

lemma persist_EntryLike_again:
  assumes p: "persist_EntryLike s l1 = Inr (row1, s1)"
    and auto_id: "EntryLike.id l2 = None"
    and same_user: "EntryLike.user_id l2 = EntryLike.user_id l1"
    and same_entry: "EntryLike.shared_entry_id l2 = EntryLike.shared_entry_id l1"
  shows "\<exists>row2 s2. persist_EntryLike s1 l2 = Inr (row2, s2) \<and>
           row1 \<in> set (entry_likes s2) \<and> row2 \<in> set (entry_likes s2) \<and> row1 \<noteq> row2 \<and>
           EntryLike.user_id row2 = EntryLike.user_id row1 \<and>
           EntryLike.shared_entry_id row2 = EntryLike.shared_entry_id row1 \<and>
           (reachable s \<longrightarrow> reachable s2)"
proof -
  let ?k1 = "assign_id (map EntryLike.id (entry_likes s)) (EntryLike.id l1)"
  let ?k2 = "assign_id (map EntryLike.id (entry_likes s1)) (EntryLike.id l2)"
  let ?row2 = "l2\<lparr>EntryLike.id := Some ?k2\<rparr>"
  let ?s2 = "s1\<lparr>entry_likes := entry_likes s1 @ [?row2]\<rparr>"
  from p have v1: "EntryLike_violations s l1 = []"
    and row1: "row1 = l1\<lparr>EntryLike.id := Some ?k1\<rparr>"
    and s1: "s1 = s\<lparr>entry_likes := entry_likes s @ [row1]\<rparr>"
    by (simp_all add: persist_EntryLike_Inr)
  from s1 have same_tables: "users s1 = users s" "shared_entries s1 = shared_entries s"
    by simp_all
  have "EntryLike_violations s1 l2 = []"
    using EntryLike_foreign_keys [OF v1] same_user same_entry same_tables
    by (simp add: EntryLike_violations_auto_id [OF auto_id])
  then have p2: "persist_EntryLike s1 l2 = Inr (?row2, ?s2)"
    by (simp add: persist_EntryLike_Inr)
  from row1 s1 have "Some ?k1 \<in> set (map EntryLike.id (entry_likes s1))"
    by simp
  then have "?k1 < next_id (map EntryLike.id (entry_likes s1))"
    by (rule next_id_fresh)
  with auto_id have ids: "?k1 \<noteq> ?k2"
    by (simp add: assign_id_def)
  from row1 have id1: "EntryLike.id row1 = Some ?k1"
    by simp
  have id2: "EntryLike.id ?row2 = Some ?k2"
    by simp
  have different: "row1 \<noteq> ?row2"
  proof
    assume "row1 = ?row2"
    then have "EntryLike.id row1 = EntryLike.id ?row2"
      by (rule arg_cong)
    with id1 id2 ids show False
      by simp
  qed
  from s1 have members: "row1 \<in> set (entry_likes ?s2)" "?row2 \<in> set (entry_likes ?s2)"
    by simp_all
  from row1 same_user same_entry
  have same: "EntryLike.user_id ?row2 = EntryLike.user_id row1"
    "EntryLike.shared_entry_id ?row2 = EntryLike.shared_entry_id row1"
    by simp_all
  have "reachable s \<longrightarrow> reachable ?s2"
    using p p2 by (blast intro: reachable_EntryLike)
  with p2 members different same show ?thesis
    by blast
qed

lemma example_store_like_b:
  "\<exists>row s1. persist_EntryLike example_store like_b = Inr (row, s1)"
proof -
  have "EntryLike_violations example_store like_b = []"
    by (simp add: EntryLike_violations_def primary_key_def foreign_key_def like_b_def
        EntryLike_init_def example_store_def example_ids)
  then show ?thesis
    by (simp add: persist_EntryLike_Inr)
qed

lemma duplicate_likes_reachable:
  "\<exists>s a b. reachable s \<and> a \<in> set (entry_likes s) \<and> b \<in> set (entry_likes s) \<and>
     a \<noteq> b \<and> EntryLike.user_id a = EntryLike.user_id b \<and>
     EntryLike.shared_entry_id a = EntryLike.shared_entry_id b"
proof -
  from example_store_like_b obtain row1 s1
    where p: "persist_EntryLike example_store like_b = Inr (row1, s1)"
    by blast
  have "EntryLike.id like_b = None"
    by (simp add: like_b_def EntryLike_init_def)
  with p obtain row2 s2 where "row1 \<in> set (entry_likes s2)" "row2 \<in> set (entry_likes s2)"
    "row1 \<noteq> row2" "EntryLike.user_id row2 = EntryLike.user_id row1"
    "EntryLike.shared_entry_id row2 = EntryLike.shared_entry_id row1"
    "reachable example_store \<longrightarrow> reachable s2"
    using persist_EntryLike_again [of example_store like_b row1 s1 like_b] by blast
  with example_store_reachable show ?thesis
    by metis
qed

text \<open>
  C8. \<open>EntryLike\<close> has no unique constraint on \<open>(user_id, shared_entry_id)\<close>: after a like
  has been persisted, persisting a second like (with an \<open>id\<close> left to the engine) of the
  same user for the same shared entry succeeds, and the store then holds two different
  \<open>EntryLike\<close> rows with that pair; it is reachable when the first store was. So there is
  a reachable store with two different likes of one user for one shared entry.
\<close>

theorem entry_like_not_unique:
  "(persist_EntryLike s l1 = Inr (row1, s1) \<and> EntryLike.id l2 = None \<and>
      EntryLike.user_id l2 = EntryLike.user_id l1 \<and>
      EntryLike.shared_entry_id l2 = EntryLike.shared_entry_id l1 \<longrightarrow>
        (\<exists>row2 s2. persist_EntryLike s1 l2 = Inr (row2, s2) \<and>
           row1 \<in> set (entry_likes s2) \<and> row2 \<in> set (entry_likes s2) \<and> row1 \<noteq> row2 \<and>
           EntryLike.user_id row2 = EntryLike.user_id row1 \<and>
           EntryLike.shared_entry_id row2 = EntryLike.shared_entry_id row1 \<and>
           (reachable s \<longrightarrow> reachable s2)))
   \<and> (\<exists>s a b. reachable s \<and> a \<in> set (entry_likes s) \<and> b \<in> set (entry_likes s) \<and>
         a \<noteq> b \<and> EntryLike.user_id a = EntryLike.user_id b \<and>
         EntryLike.shared_entry_id a = EntryLike.shared_entry_id b)"
  using persist_EntryLike_again [of s l1 row1 s1 l2] duplicate_likes_reachable
  by blast

theorem entry_like_not_unique_witness:
  "persist_EntryLike example_store like_b
     = Inr (like_b\<lparr>EntryLike.id := Some 1\<rparr>,
            example_store\<lparr>entry_likes := [like_b\<lparr>EntryLike.id := Some 1\<rparr>]\<rparr>)
   \<and> EntryLike.id like_b = None
   \<and> (\<exists>row2 s2.
         persist_EntryLike (example_store\<lparr>entry_likes := [like_b\<lparr>EntryLike.id := Some 1\<rparr>]\<rparr>)
           like_b = Inr (row2, s2) \<and>
         like_b\<lparr>EntryLike.id := Some 1\<rparr> \<in> set (entry_likes s2) \<and>
         row2 \<in> set (entry_likes s2) \<and> like_b\<lparr>EntryLike.id := Some 1\<rparr> \<noteq> row2 \<and>
         EntryLike.user_id row2 = EntryLike.user_id (like_b\<lparr>EntryLike.id := Some 1\<rparr>) \<and>
         EntryLike.shared_entry_id row2
           = EntryLike.shared_entry_id (like_b\<lparr>EntryLike.id := Some 1\<rparr>) \<and>
         reachable s2)"
proof -
  let ?row1 = "like_b\<lparr>EntryLike.id := Some 1\<rparr>"
  let ?s1 = "example_store\<lparr>entry_likes := [?row1]\<rparr>"
  have none: "EntryLike.id like_b = None"
    by (simp add: like_b_def EntryLike_init_def)
  have "EntryLike_violations example_store like_b = []"
    by (simp add: EntryLike_violations_def primary_key_def foreign_key_def like_b_def
        EntryLike_init_def example_store_def example_ids)
  moreover have "entry_likes example_store = []"
    by (simp add: example_store_def)
  ultimately have p: "persist_EntryLike example_store like_b = Inr (?row1, ?s1)"
    using none by (simp add: persist_EntryLike_Inr assign_id_def next_id_def)
  from p none example_store_reachable
  have "\<exists>row2 s2. persist_EntryLike ?s1 like_b = Inr (row2, s2) \<and>
         ?row1 \<in> set (entry_likes s2) \<and> row2 \<in> set (entry_likes s2) \<and> ?row1 \<noteq> row2 \<and>
         EntryLike.user_id row2 = EntryLike.user_id ?row1 \<and>
         EntryLike.shared_entry_id row2 = EntryLike.shared_entry_id ?row1 \<and>
         reachable s2"
    using entry_like_not_unique [of example_store like_b ?row1 ?s1 like_b]
    by blast
  with p none show ?thesis
    by blast
qed

subsection \<open>The two deletion flags of a message\<close>

lemma persist_Message_Inr:
  "persist_Message s m = Inr (row, s') \<longleftrightarrow>
     Message_violations s m = [] \<and>
     row = m\<lparr>Message.id :=
               Some (assign_id (map Message.id (messages s)) (Message.id m))\<rparr> \<and>
     s' = s\<lparr>messages := messages s @ [row]\<rparr>"
  by (auto simp: persist_Message_def Let_def commit_Inr)

lemma find_appended:
  "\<forall>y \<in> set xs. \<not> P y \<Longrightarrow> P x \<Longrightarrow> find P (xs @ [x]) = Some x"
  by (induction xs) simp_all

lemma get_persisted_Message:
  assumes "persist_Message s m = Inr (row, s1)" and "Message.id row = Some i"
  shows "get_Message s1 i = Some row"
proof -
  let ?ids = "map Message.id (messages s)"
  from assms(1) have v: "Message_violations s m = []"
    and row: "row = m\<lparr>Message.id := Some (assign_id ?ids (Message.id m))\<rparr>"
    and s1: "s1 = s\<lparr>messages := messages s @ [row]\<rparr>"
    by (simp_all add: persist_Message_Inr)
  from v have "primary_key ''messages.id'' ?ids (Message.id m) = []"
    by (simp add: Message_violations_def)
  then have "Some (assign_id ?ids (Message.id m)) \<notin> set ?ids"
    by (rule assign_id_fresh)
  moreover from row assms(2) have "i = assign_id ?ids (Message.id m)"
    by simp
  ultimately have "Some i \<notin> Message.id ` set (messages s)"
    by simp
  then have "\<forall>y \<in> set (messages s). \<not> Message.id y = Some i"
    by (metis imageI)
  with assms(2) s1 show ?thesis
    by (simp add: get_Message_def find_appended)
qed

lemma assign_Message_id: "Message.id (assign_Message a m) = Message.id m"
  by (cases a) simp_all

lemma fold_assign_Message_id: "Message.id (fold assign_Message as m) = Message.id m"
  by (induction as arbitrary: m) (simp_all add: assign_Message_id)

lemma find_updated:
  assumes "\<And>x. P (f x) = P x"
  shows "find P (map (\<lambda>x. if P x then f x else x) xs) = map_option f (find P xs)"
  using assms by (induction xs) simp_all

lemma get_updated_Message:
  "get_Message (update_Message s i as) i = map_option (fold assign_Message as) (get_Message s i)"
  unfolding get_Message_def update_Message_def
  using find_updated [of "\<lambda>m. Message.id m = Some i" "fold assign_Message as" "messages s"]
  by (simp add: fold_assign_Message_id)

text \<open>
  C6. A \<open>Message\<close> is persisted with status \<open>SENT\<close> and \<open>deleted_by_recipient = False\<close>,
  then updated to status \<open>READ\<close> with \<open>read_at\<close> set, then updated by setting
  \<open>deleted_by_sender\<close> to \<open>True\<close>. The stored message is then the persisted row with
  exactly these three fields changed: its status is still \<open>READ\<close>, its
  \<open>deleted_by_recipient\<close> is still \<open>False\<close>, and the last update changed nothing but
  \<open>deleted_by_sender\<close>.
\<close>

theorem message_deletion_independent:
  assumes "persist_Message s m = Inr (row, s1)"
    and "Message.id row = Some i"
    and "Message.status m = MessageStatus.SENT"
    and "Message.deleted_by_recipient m = False"
    and "s2 = update_Message s1 i [Set_status MessageStatus.READ, Set_read_at (Some t)]"
    and "s3 = update_Message s2 i [Set_deleted_by_sender True]"
  shows "get_Message s1 i = Some row \<and> Message.status row = MessageStatus.SENT
    \<and> get_Message s2 i = Some (row\<lparr>Message.status := MessageStatus.READ,
                                   Message.read_at := Some t\<rparr>)
    \<and> get_Message s3 i = Some (row\<lparr>Message.status := MessageStatus.READ,
                                   Message.read_at := Some t,
                                   Message.deleted_by_sender := True\<rparr>)
    \<and> map_option Message.status (get_Message s3 i) = Some MessageStatus.READ
    \<and> map_option Message.deleted_by_recipient (get_Message s3 i) = Some False
    \<and> get_Message s3 i
        = map_option (\<lambda>r. r\<lparr>Message.deleted_by_sender := True\<rparr>) (get_Message s2 i)"
proof -
  from assms(1,2) have g1: "get_Message s1 i = Some row"
    by (rule get_persisted_Message)
  from assms(1) have row: "Message.status row = Message.status m"
    "Message.deleted_by_recipient row = Message.deleted_by_recipient m"
    by (simp_all add: persist_Message_Inr)
  from g1 assms(5) have g2: "get_Message s2 i
      = Some (row\<lparr>Message.status := MessageStatus.READ, Message.read_at := Some t\<rparr>)"
    by (simp add: get_updated_Message)
  from g2 assms(6) have g3: "get_Message s3 i
      = Some (row\<lparr>Message.status := MessageStatus.READ, Message.read_at := Some t,
                   Message.deleted_by_sender := True\<rparr>)"
    by (simp add: get_updated_Message)
  from g1 g2 g3 row assms(3,4) show ?thesis
    by simp
qed

theorem message_deletion_independent_witness:
  "persist_Message example_store message_b
     = Inr (message_b\<lparr>Message.id := Some 1\<rparr>,
            example_store\<lparr>messages := [message_b\<lparr>Message.id := Some 1\<rparr>]\<rparr>)
   \<and> Message.status message_b = MessageStatus.SENT
   \<and> Message.deleted_by_recipient message_b = False
   \<and> get_Message
        (update_Message
           (update_Message
              (example_store\<lparr>messages := [message_b\<lparr>Message.id := Some 1\<rparr>]\<rparr>) 1
              [Set_status MessageStatus.READ, Set_read_at (Some 11)])
           1 [Set_deleted_by_sender True]) 1
       = Some (message_b\<lparr>Message.id := Some 1, Message.status := MessageStatus.READ,
                 Message.read_at := Some 11, Message.deleted_by_sender := True\<rparr>)
   \<and> map_option Message.status
        (get_Message
           (update_Message
              (update_Message
                 (example_store\<lparr>messages := [message_b\<lparr>Message.id := Some 1\<rparr>]\<rparr>) 1
                 [Set_status MessageStatus.READ, Set_read_at (Some 11)])
              1 [Set_deleted_by_sender True]) 1)
       = Some MessageStatus.READ
   \<and> map_option Message.deleted_by_recipient
        (get_Message
           (update_Message
              (update_Message
                 (example_store\<lparr>messages := [message_b\<lparr>Message.id := Some 1\<rparr>]\<rparr>) 1
                 [Set_status MessageStatus.READ, Set_read_at (Some 11)])
              1 [Set_deleted_by_sender True]) 1)
       = Some False"
proof -
  let ?row = "message_b\<lparr>Message.id := Some 1\<rparr>"
  let ?s1 = "example_store\<lparr>messages := [?row]\<rparr>"
  have fields: "Message.id message_b = None" "Message.status message_b = MessageStatus.SENT"
    "Message.deleted_by_recipient message_b = False" "Message.sender_id message_b = 2"
    "Message.recipient_id message_b = 1" "Message.contact_request_id message_b = 1"
    by (simp_all add: message_b_def Message_init_def)
  have "Message_violations example_store message_b = []"
    by (simp add: Message_violations_def primary_key_def foreign_key_def fields
        example_store_def example_ids)
  moreover have "messages example_store = []"
    by (simp add: example_store_def)
  ultimately have p: "persist_Message example_store message_b = Inr (?row, ?s1)"
    using fields(1) by (simp add: persist_Message_Inr assign_id_def next_id_def)
  have i: "Message.id ?row = Some 1"
    by simp
  from message_deletion_independent [OF p i fields(2) fields(3) refl refl, of 11] p fields
  show ?thesis
    by simp
qed

subsection \<open>The email pattern is not applied\<close>

lemma UserCreate_init_Inr:
  "UserCreate_init un em pw fn = Inr input \<longleftrightarrow>
     length un \<le> 50 \<and> length em \<le> 255 \<and> length pw \<le> 100 \<and> length fn \<le> 100 \<and>
     input = \<lparr>UserCreate.username = un, UserCreate.email = em, UserCreate.password = pw,
              UserCreate.full_name = fn\<rparr>"
  by (auto simp: UserCreate_init_def Let_def check_def max_length_def)

lemma email_pattern_examples:
  "email_pattern ''carol@example.org''" "\<not> email_pattern ''bob''"
  "email_pattern (''carol@example.org'' @ [CHR 0x0A])"
  by (simp_all add: email_pattern_def match_anchored_def fullmatch_def email_regex_def
      one_or_more_def lit_def alnum_def in_ranges_def)

text \<open>
  C2. An input whose email does not match the pattern of \<open>User.email\<close> is not rejected.
  The input with username \<open>bob\<close> and email \<open>bob\<close> is a valid \<open>UserCreate\<close>, since
  \<open>UserCreate.email\<close> has a \<open>max_length\<close> and no pattern (line 186); its email does not
  match the pattern (line 34); and the \<open>User\<close> constructed from it is persisted into the
  empty store without an error, so that the store then holds the email \<open>bob\<close>. Neither
  does every valid \<open>UserCreate\<close> input lead to a stored email that matches the pattern,
  nor is every email that does not match rejected with a validation error.
\<close>

theorem user_create_email_unchecked:
  "UserCreate_init ''bob'' ''bob'' ''secret'' ''Bob''
     = Inr \<lparr>UserCreate.username = ''bob'', UserCreate.email = ''bob'',
            UserCreate.password = ''secret'', UserCreate.full_name = ''Bob''\<rparr>
   \<and> \<not> email_pattern ''bob''
   \<and> persist_User empty_store
        (User_init 0 ''bob'' ''bob'' ''hash-b'' ''Bob'' None None None None None)
       = Inr ((User_init 0 ''bob'' ''bob'' ''hash-b'' ''Bob'' None None None None None)
                \<lparr>User.id := Some 1\<rparr>,
              empty_store\<lparr>users :=
                [(User_init 0 ''bob'' ''bob'' ''hash-b'' ''Bob'' None None None None None)
                   \<lparr>User.id := Some 1\<rparr>]\<rparr>)
   \<and> map User.email
        (users (empty_store\<lparr>users :=
           [(User_init 0 ''bob'' ''bob'' ''hash-b'' ''Bob'' None None None None None)
              \<lparr>User.id := Some 1\<rparr>]\<rparr>))
       = [''bob'']"
proof -
  let ?u = "User_init 0 ''bob'' ''bob'' ''hash-b'' ''Bob'' None None None None None"
  have input: "UserCreate_init ''bob'' ''bob'' ''secret'' ''Bob''
     = Inr \<lparr>UserCreate.username = ''bob'', UserCreate.email = ''bob'',
            UserCreate.password = ''secret'', UserCreate.full_name = ''Bob''\<rparr>"
    by (simp add: UserCreate_init_Inr)
  have fields: "User.username ?u = ''bob''" "User.email ?u = ''bob''" "User.id ?u = None"
    by (simp_all add: User_init_def)
  have "User_violations empty_store ?u = []"
    by (simp add: User_violations_def primary_key_def unique_def fields empty_store_def)
  moreover have "users empty_store = []"
    by (simp add: empty_store_def)
  ultimately have stored: "persist_User empty_store ?u
      = Inr (?u\<lparr>User.id := Some 1\<rparr>, empty_store\<lparr>users := [?u\<lparr>User.id := Some 1\<rparr>]\<rparr>)"
    by (simp add: persist_User_Inr assign_id_def next_id_def fields)
  have email: "map User.email (users (empty_store\<lparr>users := [?u\<lparr>User.id := Some 1\<rparr>]\<rparr>))
      = [''bob'']"
    by (simp add: fields)
  from input stored email email_pattern_examples(2) show ?thesis
    by simp
qed

end
